theory Spec2Isabelle
  imports Main
begin

section \<open>MediaObserver (src/lib/core/media-observer/media-observer.ts)\<close>

text \<open>
  The class \<^verbatim>\<open>MediaObserver\<close> wraps a \<^verbatim>\<open>MatchMedia\<close> watcher and a
  \<^verbatim>\<open>BreakPointRegistry\<close>. Its observable \<^verbatim>\<open>media$\<close> is the watcher's stream of
  raw \<^verbatim>\<open>MediaChange\<close> events piped through two filters and one map; \<^verbatim>\<open>isActive\<close>
  asks the watcher about one query. The collaborators (registry, watcher, \<^verbatim>\<open>mergeAlias\<close>,
  the \<^verbatim>\<open>MediaChange\<close> and \<^verbatim>\<open>BreakPoint\<close> types) are imported by the file and are
  modelled here from their documented contract; the methods of \<^verbatim>\<open>MediaObserver\<close> are
  translated line by line.
\<close>

subsection \<open>Collaborators\<close>

text \<open>
  Modelled from the spec: the \<^verbatim>\<open>BreakPoint\<close> value object (alias, media query string,
  overlap flag, optional priority). The source reads \<^verbatim>\<open>bp.mediaQuery\<close> and
  \<^verbatim>\<open>bp.overlapping\<close>; the field \<^verbatim>\<open>mediaQuery\<close> is written \<open>bp_mediaQuery\<close> here
  since the event type has a field of the same name, and
  \<^verbatim>\<open>alias\<close> is written \<open>bp_alias\<close>.
\<close>

record BreakPoint =
  bp_alias :: string
  bp_mediaQuery :: string
  overlapping :: bool
  bp_priority :: "int option"

text \<open>
  Modelled from the spec: the \<^verbatim>\<open>MediaChange\<close> event (query string, \<^verbatim>\<open>matches\<close> true on
  activation and false on de-activation, alias initially empty, priority metadata).
\<close>

record MediaChange =
  matches :: bool
  mediaQuery :: string
  mqAlias :: string
  priority :: "int option"

text \<open>
  Modelled from the spec: the \<^verbatim>\<open>BreakPointRegistry\<close>, an ordered collection of breakpoints
  that is read-only after construction, with exact-match lookups by alias and by query
  string; not-found is the value \<open>None\<close>.
\<close>

record BreakPointRegistry =
  items :: "BreakPoint list"

definition findByAlias :: "BreakPointRegistry \<Rightarrow> string \<Rightarrow> BreakPoint option" where
  "findByAlias locator a = find (\<lambda>bp. bp_alias bp = a) (items locator)"

definition findByQuery :: "BreakPointRegistry \<Rightarrow> string \<Rightarrow> BreakPoint option" where
  "findByQuery locator query = find (\<lambda>bp. bp_mediaQuery bp = query) (items locator)"

text \<open>
  Modelled from the spec: \<^verbatim>\<open>mergeAlias\<close>, the pure annotator. With a breakpoint it copies
  alias, canonical query string and priority onto the event; without one it returns the
  event unchanged.
\<close>

definition mergeAlias :: "MediaChange \<Rightarrow> BreakPoint option \<Rightarrow> MediaChange" where
  "mergeAlias dest source =
     (case source of
        None \<Rightarrow> dest
      | Some bp \<Rightarrow> dest\<lparr>mediaQuery := bp_mediaQuery bp, mqAlias := bp_alias bp,
                          priority := bp_priority bp\<rparr>)"

text \<open>
  Modelled from the spec: the \<^verbatim>\<open>MatchMedia\<close> watcher. \<open>mm_isActive\<close> is its synchronous
  match state for a literal query string; \<open>observed\<close> holds the queries handed to
  \<^verbatim>\<open>observe\<close>. The stream \<^verbatim>\<open>observe\<close> returns is the input of \<open>run\<close> below.
\<close>

record MatchMedia =
  mm_isActive :: "string \<Rightarrow> bool"
  observed :: "string list"

definition observe :: "MatchMedia \<Rightarrow> string list \<Rightarrow> MatchMedia" where
  "observe mw mqList = mw\<lparr>observed := observed mw @ mqList\<rparr>"

text \<open>
  \<^verbatim>\<open>LayoutConfigOptions\<close>: only \<^verbatim>\<open>printWithBreakpoint?: string\<close> is read by this file.
\<close>

record LayoutConfigOptions =
  printWithBreakpoint :: "string option"

subsection \<open>The class\<close>

text \<open>
  The fields of \<^verbatim>\<open>MediaObserver\<close>. \<^verbatim>\<open>filterOverlaps\<close> is the one mutable field;
  \<^verbatim>\<open>media$\<close> is the function \<open>media\<close> of the current state, below.
\<close>

record MediaObserver =
  breakpoints :: BreakPointRegistry
  mediaWatcher :: MatchMedia
  layoutConfig :: LayoutConfigOptions
  filterOverlaps :: bool

text \<open>
  \<^verbatim>\<open>!!this.layoutConfig.printWithBreakpoint\<close>: an absent option and the empty string are
  both falsy.
\<close>

definition truthy :: "string option \<Rightarrow> bool" where
  "truthy v = (case v of None \<Rightarrow> False | Some s \<Rightarrow> s \<noteq> [])"

text \<open>
  \<^verbatim>\<open>addPrintListener(queries)\<close>: \<^verbatim>\<open>queries.push('print')\<close> when configured. The array is
  the fresh one \<^verbatim>\<open>watchActivations\<close> built; the model returns the extended list.
\<close>

definition addPrintListener :: "LayoutConfigOptions \<Rightarrow> string list \<Rightarrow> string list" where
  "addPrintListener cfg queries =
     (if truthy (printWithBreakpoint cfg) then queries @ [''print''] else queries)"

text \<open>
  \<^verbatim>\<open>excludeOverlaps\<close>, the closure of \<^verbatim>\<open>buildObservable\<close>: it reads
  \<^verbatim>\<open>this.filterOverlaps\<close> each time it is called.
\<close>

definition excludeOverlaps :: "MediaObserver \<Rightarrow> MediaChange \<Rightarrow> bool" where
  "excludeOverlaps this change =
     (case findByQuery (breakpoints this) (mediaQuery change) of
        None \<Rightarrow> True
      | Some bp \<Rightarrow> \<not> (filterOverlaps this \<and> overlapping bp))"

text \<open>
  The callback given to \<^verbatim>\<open>map\<close>. For the query \<^verbatim>\<open>'print'\<close> the breakpoint is looked up
  by the configured alias (\<^verbatim>\<open>printWithBreakpoint!\<close>; when it is undefined the lookup
  compares every alias with \<^verbatim>\<open>undefined\<close> and finds nothing), otherwise by the query. A
  found breakpoint is assigned to \<^verbatim>\<open>change.mediaQuery\<close>, a field of the event object the
  watcher handed over, before \<^verbatim>\<open>mergeAlias\<close> builds the value that is returned. The
  result is the pair of the event object after the call and the returned value.
\<close>

definition printBreakPoint :: "MediaObserver \<Rightarrow> BreakPoint option" where
  "printBreakPoint this =
     (case printWithBreakpoint (layoutConfig this) of
        None \<Rightarrow> None
      | Some a \<Rightarrow> findByAlias (breakpoints this) a)"

definition injectAlias :: "MediaObserver \<Rightarrow> MediaChange \<Rightarrow> MediaChange \<times> MediaChange" where
  "injectAlias this change =
     (let bp = (if mediaQuery change = ''print''
                then printBreakPoint this
                else findByQuery (breakpoints this) (mediaQuery change));
          change' = (case bp of
                       None \<Rightarrow> change
                     | Some b \<Rightarrow> change\<lparr>mediaQuery := bp_mediaQuery b\<rparr>)
      in (change', mergeAlias change' bp))"

text \<open>
  The RxJS operator \<^verbatim>\<open>filter\<close> for one pushed value: it passes the value or drops it;
  \<open>None\<close> is "nothing is pushed downstream".
\<close>

definition rx_filter :: "('a \<Rightarrow> bool) \<Rightarrow> 'a \<Rightarrow> 'a option" where
  "rx_filter p x = (if p x then Some x else None)"

text \<open>
  The pipe of \<^verbatim>\<open>buildObservable\<close>, as one subscriber's chain runs it on one event object:
  \<^verbatim>\<open>filter(change => change.matches), filter(excludeOverlaps), map(...)\<close>. The result is
  the event object afterwards (changed only when the map stage is reached) and what is
  pushed to the subscriber.
\<close>

definition media :: "MediaObserver \<Rightarrow> MediaChange \<Rightarrow> MediaChange \<times> MediaChange option" where
  "media this change =
     (case Option.bind (rx_filter matches change) (rx_filter (excludeOverlaps this)) of
        None \<Rightarrow> (change, None)
      | Some c \<Rightarrow> (fst (injectAlias this c), Some (snd (injectAlias this c))))"

text \<open>
  \<^verbatim>\<open>buildObservable(mqList)\<close> calls \<^verbatim>\<open>this.mediaWatcher.observe(this.addPrintListener(mqList))\<close>
  and pipes the operators of \<open>media\<close> onto the stream it gets. The definition is the effect
  of that call on the watcher; the piped stream is \<open>media\<close> above.
\<close>

definition buildObservable :: "MediaObserver \<Rightarrow> string list \<Rightarrow> MatchMedia" where
  "buildObservable this mqList =
     observe (mediaWatcher this) (addPrintListener (layoutConfig this) mqList)"

text \<open>\<^verbatim>\<open>watchActivations\<close>: the queries of all registry items, in registry order.\<close>

definition watchActivations :: "MediaObserver \<Rightarrow> MatchMedia" where
  "watchActivations this =
     (let queries = map bp_mediaQuery (items (breakpoints this))
      in buildObservable this queries)"

text \<open>
  The constructor: the field initialiser \<^verbatim>\<open>filterOverlaps = true\<close>, the three injected
  collaborators, and \<^verbatim>\<open>this.media$ = this.watchActivations()\<close>, its only call.
\<close>

definition newMediaObserver ::
    "BreakPointRegistry \<Rightarrow> MatchMedia \<Rightarrow> LayoutConfigOptions \<Rightarrow> MediaObserver" where
  "newMediaObserver locator mw cfg =
     (let this = \<lparr>breakpoints = locator, mediaWatcher = mw, layoutConfig = cfg,
                  filterOverlaps = True\<rparr>
      in this\<lparr>mediaWatcher := watchActivations this\<rparr>)"

text \<open>\<^verbatim>\<open>toMediaQuery\<close> and \<^verbatim>\<open>isActive\<close>.\<close>

definition toMediaQuery :: "MediaObserver \<Rightarrow> string \<Rightarrow> string" where
  "toMediaQuery this query =
     (let bp = (case findByAlias (breakpoints this) query of
                  Some b \<Rightarrow> Some b
                | None \<Rightarrow> findByQuery (breakpoints this) query)
      in case bp of Some b \<Rightarrow> bp_mediaQuery b | None \<Rightarrow> query)"

definition isActive :: "MediaObserver \<Rightarrow> string \<Rightarrow> bool" where
  "isActive this a = mm_isActive (mediaWatcher this) (toMediaQuery this a)"

subsection \<open>Runs\<close>

text \<open>
  \<^verbatim>\<open>media$\<close> is the piped stream itself, not shared: every subscriber of \<^verbatim>\<open>media$\<close> gets a
  chain of its own on the watcher's stream. Modelled from the spec: that stream is
  multicast, so one raw event is one object, handed to the chains one after the other
  in the order of subscription. \<open>eventFor this k change\<close> is the event object as the chain
  of subscriber \<open>k\<close> (the one with \<open>k\<close> subscribers before it) receives it.
\<close>

fun eventFor :: "MediaObserver \<Rightarrow> nat \<Rightarrow> MediaChange \<Rightarrow> MediaChange" where
  "eventFor this 0 change = change"
| "eventFor this (Suc k) change = fst (media this (eventFor this k change))"

text \<open>
  What happens to an observer after construction: the watcher pushes a raw event (a new
  object each time), or a caller assigns \<^verbatim>\<open>filterOverlaps\<close>. \<open>run this k\<close> is the list of
  events subscriber \<open>k\<close> receives, in the order it receives them, and \<open>exec\<close> is the
  observer afterwards.
\<close>

datatype action = Notify MediaChange | SetFilterOverlaps bool

fun exec :: "MediaObserver \<Rightarrow> action list \<Rightarrow> MediaObserver" where
  "exec this [] = this"
| "exec this (Notify change # acts) = exec this acts"
| "exec this (SetFilterOverlaps b # acts) = exec (this\<lparr>filterOverlaps := b\<rparr>) acts"

fun run :: "MediaObserver \<Rightarrow> nat \<Rightarrow> action list \<Rightarrow> MediaChange list" where
  "run this k [] = []"
| "run this k (Notify change # acts) =
     (case snd (media this (eventFor this k change)) of
        None \<Rightarrow> run this k acts
      | Some out \<Rightarrow> out # run this k acts)"
| "run this k (SetFilterOverlaps b # acts) = run (this\<lparr>filterOverlaps := b\<rparr>) k acts"

subsection \<open>Example configuration\<close>

text \<open>
  Modelled from the spec: a raw event as the watcher delivers it carries the match state
  and the query string; its alias is empty.
\<close>

definition rawChange :: "bool \<Rightarrow> string \<Rightarrow> MediaChange" where
  "rawChange m query = \<lparr>matches = m, mediaQuery = query, mqAlias = [], priority = None\<rparr>"

text \<open>
  Breakpoints, registries, a watcher and configurations on which the theorems below are
  evaluated: \<open>sm\<close> is a bounded range, \<open>gt-sm\<close> an overlapping one, and \<open>bp_print\<close> a
  custom overlapping breakpoint whose media query is the string \<^verbatim>\<open>print\<close>. In
  \<open>clashRegistry\<close> the string \<^verbatim>\<open>sm\<close> is the alias of one breakpoint and the query of an
  earlier one. The watcher reports \<^verbatim>\<open>(min-width:600px)\<close> as active.
\<close>

definition bp_sm :: BreakPoint where
  "bp_sm = \<lparr>bp_alias = ''sm'', bp_mediaQuery = ''(min-width:600px)'', overlapping = False,
            bp_priority = None\<rparr>"

definition bp_gt_sm :: BreakPoint where
  "bp_gt_sm = \<lparr>bp_alias = ''gt-sm'', bp_mediaQuery = ''(min-width:960px)'', overlapping = True,
               bp_priority = None\<rparr>"

definition bp_print :: BreakPoint where
  "bp_print = \<lparr>bp_alias = ''paper'', bp_mediaQuery = ''print'', overlapping = True,
               bp_priority = None\<rparr>"

definition stdRegistry :: BreakPointRegistry where
  "stdRegistry = \<lparr>items = [bp_sm, bp_gt_sm]\<rparr>"

definition printRegistry :: BreakPointRegistry where
  "printRegistry = \<lparr>items = [bp_sm, bp_print]\<rparr>"

definition bp_wide :: BreakPoint where
  "bp_wide = \<lparr>bp_alias = ''wide'', bp_mediaQuery = ''sm'', overlapping = False,
              bp_priority = None\<rparr>"

definition clashRegistry :: BreakPointRegistry where
  "clashRegistry = \<lparr>items = [bp_wide, bp_sm]\<rparr>"

definition idleWatcher :: MatchMedia where
  "idleWatcher = \<lparr>mm_isActive = (\<lambda>q. q = ''(min-width:600px)''), observed = []\<rparr>"

definition printAs :: "string option \<Rightarrow> LayoutConfigOptions" where
  "printAs a = \<lparr>printWithBreakpoint = a\<rparr>"

subsection \<open>Basic facts\<close>

lemma media_cases:
  "media this change =
     (if matches change \<and> excludeOverlaps this change
      then (fst (injectAlias this change), Some (snd (injectAlias this change)))
      else (change, None))"
  by (simp add: media_def rx_filter_def)

lemma matches_injectAlias:
  "matches (fst (injectAlias this change)) = matches change \<and>
   matches (snd (injectAlias this change)) = matches change"
  by (simp add: injectAlias_def mergeAlias_def Let_def split: option.split)

lemmas fixture_defs = rawChange_def bp_sm_def bp_gt_sm_def bp_print_def bp_wide_def
  stdRegistry_def printRegistry_def clashRegistry_def idleWatcher_def printAs_def
  newMediaObserver_def watchActivations_def buildObservable_def addPrintListener_def
  truthy_def observe_def

lemmas pipe_defs = media_cases excludeOverlaps_def injectAlias_def printBreakPoint_def
  mergeAlias_def findByQuery_def findByAlias_def Let_def

lemma findByQuery_SomeD:
  "findByQuery locator query = Some bp \<Longrightarrow> bp_mediaQuery bp = query \<and> bp \<in> set (items locator)"
  by (auto simp: findByQuery_def find_Some_iff)

lemma findByAlias_SomeD:
  "findByAlias locator a = Some bp \<Longrightarrow> bp_alias bp = a \<and> bp \<in> set (items locator)"
  by (auto simp: findByAlias_def find_Some_iff)

lemma find_distinct_key:
  "distinct (map f xs) \<Longrightarrow> x \<in> set xs \<Longrightarrow> find (\<lambda>y. f y = f x) xs = Some x"
  by (induction xs) auto

lemma findByQuery_registered:
  "distinct (map bp_mediaQuery (items locator)) \<Longrightarrow> B \<in> set (items locator) \<Longrightarrow>
   findByQuery locator (bp_mediaQuery B) = Some B"
  by (simp add: findByQuery_def find_distinct_key)

lemma excludeOverlaps_flag:
  "excludeOverlaps (this\<lparr>filterOverlaps := b\<rparr>) change =
     (case findByQuery (breakpoints this) (mediaQuery change) of
        None \<Rightarrow> True | Some bp \<Rightarrow> \<not> (b \<and> overlapping bp))"
  by (simp add: excludeOverlaps_def split: option.split)

lemma injectAlias_flag:
  "injectAlias (this\<lparr>filterOverlaps := b\<rparr>) change = injectAlias this change"
  by (simp add: injectAlias_def printBreakPoint_def split: option.split)

text \<open>The event object after the map callback, case by case.\<close>

lemma fst_injectAlias_query:
  "mediaQuery change \<noteq> ''print'' \<Longrightarrow> fst (injectAlias this change) = change"
  by (auto simp: injectAlias_def Let_def dest: findByQuery_SomeD split: option.split)

lemma fst_injectAlias_print_None:
  "mediaQuery change = ''print'' \<Longrightarrow> printBreakPoint this = None \<Longrightarrow>
   fst (injectAlias this change) = change"
  by (simp add: injectAlias_def Let_def)

lemma fst_injectAlias_print_Some:
  "mediaQuery change = ''print'' \<Longrightarrow> printBreakPoint this = Some bp \<Longrightarrow>
   fst (injectAlias this change) = change\<lparr>mediaQuery := bp_mediaQuery bp\<rparr>"
  by (simp add: injectAlias_def Let_def)

lemma matches_media: "matches (fst (media this change)) = matches change"
  by (simp add: media_cases matches_injectAlias)

lemma matches_eventFor: "matches (eventFor this k change) = matches change"
  by (induction k) (simp_all add: matches_media)

text \<open>An event object that the first chain leaves as it is reaches every chain unchanged.\<close>

lemma eventFor_fixed:
  "fst (media this change) = change \<Longrightarrow> eventFor this k change = change"
  by (induction k) simp_all

lemma eventFor_unchanged:
  assumes "mediaQuery change = ''print'' \<Longrightarrow>
             printBreakPoint this = None \<or> \<not> excludeOverlaps this change"
  shows "eventFor this k change = change"
proof (rule eventFor_fixed)
  show "fst (media this change) = change"
  proof (cases "mediaQuery change = ''print''")
    case True
    with assms show ?thesis
      by (auto simp: media_cases fst_injectAlias_print_None)
  next
    case False
    then show ?thesis
      by (simp add: media_cases fst_injectAlias_query)
  qed
qed

text \<open>A second pass of a chain leaves the object as the first pass left it.\<close>

lemma media_idem: "fst (media this (fst (media this change))) = fst (media this change)"
proof (cases "matches change \<and> excludeOverlaps this change \<and> mediaQuery change = ''print''")
  case False
  then have "fst (media this change) = change"
    by (auto simp: media_cases fst_injectAlias_query)
  then show ?thesis by simp
next
  case True
  show ?thesis
  proof (cases "printBreakPoint this")
    case None
    with True have "fst (media this change) = change"
      by (simp add: media_cases fst_injectAlias_print_None)
    then show ?thesis by simp
  next
    case (Some bp)
    with True have first: "fst (media this change) = change\<lparr>mediaQuery := bp_mediaQuery bp\<rparr>"
      by (simp add: media_cases fst_injectAlias_print_Some)
    show ?thesis
    proof (cases "bp_mediaQuery bp = ''print''")
      case True
      with first \<open>matches change \<and> excludeOverlaps this change \<and> mediaQuery change = ''print''\<close>
      have "fst (media this change) = change" by simp
      then show ?thesis by simp
    next
      case False
      then have "fst (media this (change\<lparr>mediaQuery := bp_mediaQuery bp\<rparr>)) =
                 change\<lparr>mediaQuery := bp_mediaQuery bp\<rparr>"
        by (simp add: media_cases fst_injectAlias_query)
      with first show ?thesis by simp
    qed
  qed
qed

lemma eventFor_Suc: "eventFor this (Suc k) change = fst (media this change)"
  by (induction k) (simp_all add: media_idem)

lemma run_append:
  "run this k (acts1 @ acts2) = run this k acts1 @ run (exec this acts1) k acts2"
proof (induction acts1 arbitrary: this)
  case Nil
  show ?case by simp
next
  case (Cons a acts1)
  show ?case by (cases a) (simp_all add: Cons.IH split: option.split)
qed

lemma exec_frame:
  "breakpoints (exec this acts) = breakpoints this \<and>
   mediaWatcher (exec this acts) = mediaWatcher this \<and>
   layoutConfig (exec this acts) = layoutConfig this"
proof (induction acts arbitrary: this)
  case Nil
  show ?case by simp
next
  case (Cons a acts)
  show ?case by (cases a) (simp_all add: Cons.IH)
qed

lemma run_Notify_map:
  "run this k (map Notify changes) =
     map (\<lambda>c. snd (injectAlias this (eventFor this k c)))
       (filter (\<lambda>c. matches c \<and> excludeOverlaps this (eventFor this k c)) changes)"
  by (induction changes) (simp_all add: media_cases matches_eventFor)

lemma length_run: "length (run this k acts) \<le> length acts"
proof (induction acts arbitrary: this)
  case Nil
  show ?case by simp
next
  case (Cons a acts)
  show ?case
  proof (cases a)
    case (Notify change)
    then show ?thesis
      using Cons.IH [of this] by (simp split: option.split)
  next
    case (SetFilterOverlaps b)
    then show ?thesis
      using Cons.IH [of "this\<lparr>filterOverlaps := b\<rparr>"] by simp
  qed
qed

lemma excludeOverlaps_off: "\<not> filterOverlaps this \<Longrightarrow> excludeOverlaps this change"
  by (simp add: excludeOverlaps_def split: option.split)

lemma eventFor_query:
  "mediaQuery change \<noteq> ''print'' \<Longrightarrow> eventFor this k change = change"
  by (rule eventFor_unchanged) simp

lemma eventFor_blocked:
  "\<not> excludeOverlaps this change \<Longrightarrow> eventFor this k change = change"
  by (rule eventFor_unchanged) simp

lemma eventFor_print_None:
  "printBreakPoint this = None \<Longrightarrow> eventFor this k change = change"
  by (rule eventFor_unchanged) simp

lemma run_Notify1:
  "run this k [Notify change] =
     (if matches change \<and> excludeOverlaps this (eventFor this k change)
      then [snd (injectAlias this (eventFor this k change))] else [])"
  by (simp add: media_cases matches_eventFor)

lemma snd_injectAlias_print_Some:
  "mediaQuery change = ''print'' \<Longrightarrow> printBreakPoint this = Some bp \<Longrightarrow>
   snd (injectAlias this change) =
     mergeAlias (change\<lparr>mediaQuery := bp_mediaQuery bp\<rparr>) (Some bp)"
  by (simp add: injectAlias_def Let_def)

lemma snd_injectAlias_query:
  "mediaQuery change \<noteq> ''print'' \<Longrightarrow>
   findByQuery (breakpoints this) (mediaQuery change) = Some bp \<Longrightarrow>
   snd (injectAlias this change) =
     mergeAlias (change\<lparr>mediaQuery := bp_mediaQuery bp\<rparr>) (Some bp)"
  by (simp add: injectAlias_def Let_def)

section \<open>The activation stream\<close>

text \<open>
  C1. Activations only: a raw event with \<open>matches = False\<close> produces no downstream event
  for any subscriber, and every event a subscriber of \<^verbatim>\<open>media$\<close> receives, in any run,
  has \<open>matches = True\<close>.
\<close>

theorem C1_activations_only:
  "(\<not> matches change \<longrightarrow> run this k [Notify change] = []) \<and>
   (\<forall>out \<in> set (run this k acts). matches out)"
proof
  show "\<not> matches change \<longrightarrow> run this k [Notify change] = []"
    unfolding run_Notify1 by simp
  show "\<forall>out \<in> set (run this k acts). matches out"
  proof (induction acts arbitrary: this)
    case Nil
    show ?case by simp
  next
    case (Cons a acts)
    show ?case
    proof (cases a)
      case (Notify change)
      then show ?thesis
        using Cons.IH [of this]
        by (auto simp: media_cases matches_injectAlias matches_eventFor)
    next
      case (SetFilterOverlaps b)
      then show ?thesis using Cons.IH by simp
    qed
  qed
qed

theorem C1_witness:
  "run (newMediaObserver stdRegistry idleWatcher (printAs None)) (Suc 0)
     [Notify (rawChange False ''(min-width:600px)''), Notify (rawChange True ''(min-width:600px)'')]
   = [\<lparr>matches = True, mediaQuery = ''(min-width:600px)'', mqAlias = ''sm'', priority = None\<rparr>]
   \<and> run (newMediaObserver stdRegistry idleWatcher (printAs None)) (Suc 0)
     [Notify (rawChange False ''(min-width:600px)'')] = []"
  using C1_activations_only [of "rawChange False ''(min-width:600px)''"
      "newMediaObserver stdRegistry idleWatcher (printAs None)" "Suc 0"
      "[Notify (rawChange False ''(min-width:600px)''), Notify (rawChange True ''(min-width:600px)'')]"]
  by (simp add: fixture_defs pipe_defs)

section \<open>The overlap filter\<close>

text \<open>
  C2 (amended). Take a raw activation event whose query \<open>findByQuery\<close> resolves to a
  breakpoint \<open>bp\<close> with \<open>overlapping = True\<close>. With \<open>filterOverlaps\<close> true when the event
  is processed, nothing is emitted. With \<open>filterOverlaps\<close> false, exactly one event is
  emitted, and when the query is not the literal \<^verbatim>\<open>print\<close> it carries the alias of \<open>bp\<close>.
  The flag is read for each event: in a run that delivers the event, clears the flag,
  delivers it again, sets the flag and delivers it once more, only the second delivery
  is emitted. A newly constructed observer has the flag set. All of this holds for every
  subscriber \<open>k\<close>.
\<close>

theorem C2_overlap_filter:
  assumes "matches change"
    and "findByQuery (breakpoints this) (mediaQuery change) = Some bp"
    and "overlapping bp"
  shows "run (this\<lparr>filterOverlaps := True\<rparr>) k [Notify change] = [] \<and>
         (\<exists>out. run (this\<lparr>filterOverlaps := False\<rparr>) k [Notify change] = [out] \<and>
                (mediaQuery change \<noteq> ''print'' \<longrightarrow> mqAlias out = bp_alias bp)) \<and>
         (\<exists>out. run (this\<lparr>filterOverlaps := True\<rparr>) k
                  [Notify change, SetFilterOverlaps False, Notify change,
                   SetFilterOverlaps True, Notify change] = [out] \<and>
                (mediaQuery change \<noteq> ''print'' \<longrightarrow> mqAlias out = bp_alias bp)) \<and>
         filterOverlaps (newMediaObserver locator mw cfg)"
proof -
  let ?on = "this\<lparr>filterOverlaps := True\<rparr>"
  let ?off = "this\<lparr>filterOverlaps := False\<rparr>"
  have blocked: "\<not> excludeOverlaps ?on change"
    using assms by (simp add: excludeOverlaps_flag)
  then have same: "eventFor ?on k change = change"
    by (rule eventFor_blocked)
  have one: "run ?on k [Notify change] = []"
    unfolding run_Notify1 using blocked same by simp
  have two: "run ?off k [Notify change] = [snd (injectAlias ?off (eventFor ?off k change))]"
    unfolding run_Notify1 using assms(1) by (simp add: excludeOverlaps_off)
  have ann: "mqAlias (snd (injectAlias ?off (eventFor ?off k change))) = bp_alias bp"
    if "mediaQuery change \<noteq> ''print''"
  proof -
    have "eventFor ?off k change = change"
      using that by (rule eventFor_query)
    then show ?thesis
      using that assms(2) by (simp add: injectAlias_def mergeAlias_def Let_def)
  qed
  have three: "run ?on k [Notify change, SetFilterOverlaps False, Notify change,
                          SetFilterOverlaps True, Notify change]
               = [snd (injectAlias ?off (eventFor ?off k change))]"
  proof -
    have "run ?on k ([Notify change] @ [SetFilterOverlaps False, Notify change,
                          SetFilterOverlaps True, Notify change])
          = run ?on k [Notify change] @
            run ?off k ([Notify change] @ [SetFilterOverlaps True, Notify change])"
      by (subst run_append) simp
    also have "\<dots> = run ?off k [Notify change] @ run ?on k [Notify change]"
      using one by (subst run_append) simp
    finally show ?thesis
      using one two by simp
  qed
  have dflt: "filterOverlaps (newMediaObserver locator mw cfg)"
    by (simp add: newMediaObserver_def Let_def)
  show ?thesis
    using one two three dflt ann by simp
qed

theorem C2_witness:
  "run (newMediaObserver stdRegistry idleWatcher (printAs None)) (Suc 0)
     [Notify (rawChange True ''(min-width:960px)''), SetFilterOverlaps False,
      Notify (rawChange True ''(min-width:960px)''), SetFilterOverlaps True,
      Notify (rawChange True ''(min-width:960px)'')]
   = [\<lparr>matches = True, mediaQuery = ''(min-width:960px)'', mqAlias = ''gt-sm'', priority = None\<rparr>]
   \<and> findByQuery stdRegistry ''(min-width:960px)'' = Some bp_gt_sm
   \<and> overlapping bp_gt_sm"
  using C2_overlap_filter [of "rawChange True ''(min-width:960px)''"
      "newMediaObserver stdRegistry idleWatcher (printAs None)" bp_gt_sm "Suc 0"]
  by (simp add: fixture_defs pipe_defs)

text \<open>
  The claim without the exception for \<^verbatim>\<open>print\<close> fails: in \<open>printRegistry\<close> the query
  \<^verbatim>\<open>print\<close> resolves to the overlapping breakpoint \<open>paper\<close>; with the flag cleared the
  event is emitted, but the map stage looks \<^verbatim>\<open>print\<close> up by the configured alias (none
  here), so the event carries the empty alias and not \<open>paper\<close>.
\<close>

theorem C2_counterexample:
  "matches (rawChange True ''print'')
   \<and> findByQuery (breakpoints (newMediaObserver printRegistry idleWatcher (printAs None)))
       (mediaQuery (rawChange True ''print'')) = Some bp_print
   \<and> overlapping bp_print
   \<and> run ((newMediaObserver printRegistry idleWatcher (printAs None))\<lparr>filterOverlaps := False\<rparr>) 0
       [Notify (rawChange True ''print'')]
     = [\<lparr>matches = True, mediaQuery = ''print'', mqAlias = [], priority = None\<rparr>]
   \<and> bp_alias bp_print = ''paper''"
  by (simp add: fixture_defs pipe_defs)

text \<open>
  C10 (amended). An activation event for the literal query \<^verbatim>\<open>print\<close>, \<^verbatim>\<open>print\<close> not
  being a query of the registry, is not dropped by the overlap filter of the first
  subscriber's chain, also when \<open>filterOverlaps\<close> is true and the breakpoint of the
  \<^verbatim>\<open>printWithBreakpoint\<close> alias is overlapping: that filter looks up the raw string
  before the map stage of the chain replaces the query, and the first subscriber
  receives the event with that breakpoint's query and alias.
\<close>

theorem C10_print_passes_overlap_filter:
  assumes "findByQuery (breakpoints this) ''print'' = None"
    and "matches change"
    and "mediaQuery change = ''print''"
  shows "excludeOverlaps (this\<lparr>filterOverlaps := True\<rparr>) change \<and>
         run (this\<lparr>filterOverlaps := True\<rparr>) 0 [Notify change] = [snd (injectAlias this change)] \<and>
         (printWithBreakpoint (layoutConfig this) = Some a \<and>
          findByAlias (breakpoints this) a = Some bp \<and> overlapping bp \<longrightarrow>
            mediaQuery (snd (injectAlias this change)) = bp_mediaQuery bp \<and>
            mqAlias (snd (injectAlias this change)) = bp_alias bp)"
proof -
  have pass: "excludeOverlaps (this\<lparr>filterOverlaps := True\<rparr>) change"
    using assms(1,3) by (simp add: excludeOverlaps_flag)
  have emit: "run (this\<lparr>filterOverlaps := True\<rparr>) 0 [Notify change] = [snd (injectAlias this change)]"
    unfolding run_Notify1 using pass assms(2) by (simp add: injectAlias_flag)
  have subst: "mediaQuery (snd (injectAlias this change)) = bp_mediaQuery bp \<and>
               mqAlias (snd (injectAlias this change)) = bp_alias bp"
    if "printWithBreakpoint (layoutConfig this) = Some a"
      and "findByAlias (breakpoints this) a = Some bp"
    using that assms(3) by (simp add: injectAlias_def printBreakPoint_def mergeAlias_def Let_def)
  show ?thesis
    using pass emit subst by blast
qed

text \<open>
  On \<open>stdRegistry\<close> with \<^verbatim>\<open>printWithBreakpoint = 'gt-sm'\<close>: the event for \<^verbatim>\<open>print\<close> reaches
  the first subscriber as \<open>gt-sm\<close>, while an event for the query of \<open>gt-sm\<close> itself is
  dropped.
\<close>

theorem C10_witness:
  "findByQuery stdRegistry ''print'' = None
   \<and> findByAlias stdRegistry ''gt-sm'' = Some bp_gt_sm
   \<and> overlapping bp_gt_sm
   \<and> filterOverlaps (newMediaObserver stdRegistry idleWatcher (printAs (Some ''gt-sm'')))
   \<and> run (newMediaObserver stdRegistry idleWatcher (printAs (Some ''gt-sm''))) 0
       [Notify (rawChange True ''print'')]
     = [\<lparr>matches = True, mediaQuery = ''(min-width:960px)'', mqAlias = ''gt-sm'', priority = None\<rparr>]
   \<and> run (newMediaObserver stdRegistry idleWatcher (printAs (Some ''gt-sm''))) 0
       [Notify (rawChange True ''(min-width:960px)'')] = []"
  using C10_print_passes_overlap_filter
    [of "newMediaObserver stdRegistry idleWatcher (printAs (Some ''gt-sm''))"
      "rawChange True ''print''" "''gt-sm''" bp_gt_sm]
  by (simp add: fixture_defs pipe_defs)

text \<open>
  A print activation can be dropped by an overlap filter all the same. In the setting
  above the chain of the first subscriber has assigned the query of \<open>gt-sm\<close> to the event
  object, so the overlap filter of the second subscriber's chain looks that query up
  and drops the event. And where \<^verbatim>\<open>print\<close> is itself the query of an overlapping
  breakpoint (\<open>printRegistry\<close>), the first chain's filter drops it.
\<close>

theorem C10_counterexample:
  "findByQuery stdRegistry ''print'' = None
   \<and> printWithBreakpoint (layoutConfig (newMediaObserver stdRegistry idleWatcher (printAs (Some ''gt-sm''))))
     = Some ''gt-sm''
   \<and> findByAlias stdRegistry ''gt-sm'' = Some bp_gt_sm
   \<and> overlapping bp_gt_sm
   \<and> filterOverlaps (newMediaObserver stdRegistry idleWatcher (printAs (Some ''gt-sm'')))
   \<and> eventFor (newMediaObserver stdRegistry idleWatcher (printAs (Some ''gt-sm''))) (Suc 0)
       (rawChange True ''print'')
     = \<lparr>matches = True, mediaQuery = ''(min-width:960px)'', mqAlias = [], priority = None\<rparr>
   \<and> \<not> excludeOverlaps (newMediaObserver stdRegistry idleWatcher (printAs (Some ''gt-sm'')))
       (eventFor (newMediaObserver stdRegistry idleWatcher (printAs (Some ''gt-sm''))) (Suc 0)
         (rawChange True ''print''))
   \<and> run (newMediaObserver stdRegistry idleWatcher (printAs (Some ''gt-sm''))) (Suc 0)
       [Notify (rawChange True ''print'')] = []
   \<and> findByQuery printRegistry ''print'' = Some bp_print
   \<and> \<not> excludeOverlaps (newMediaObserver printRegistry idleWatcher (printAs (Some ''sm'')))
       (rawChange True ''print'')"
  by (simp add: fixture_defs pipe_defs)

section \<open>Annotation\<close>

text \<open>
  The registry lookup is by string equality: a raw query written differently from the
  stored string (here with a space after the colon) is not resolved, and the event is
  emitted as it came.
\<close>

lemma unnormalised_query_unannotated:
  "run (newMediaObserver stdRegistry idleWatcher (printAs None)) 0
     [Notify (rawChange True ''(min-width: 600px)'')]
   = [rawChange True ''(min-width: 600px)'']"
  by (simp add: fixture_defs pipe_defs)

text \<open>
  C3 (amended). In a registry whose query strings are unique, let \<open>B\<close> be a registered
  breakpoint whose query is not the literal \<^verbatim>\<open>print\<close>. An activation event whose raw
  query string is the query of \<open>B\<close>, and which passes the overlap filter, is emitted to
  every subscriber as exactly one event, with the alias of \<open>B\<close> and the registry's stored
  query string of \<open>B\<close>.
\<close>

theorem C3_alias_injection:
  assumes "B \<in> set (items (breakpoints this))"
    and "distinct (map bp_mediaQuery (items (breakpoints this)))"
    and "matches change"
    and "mediaQuery change = bp_mediaQuery B"
    and "bp_mediaQuery B \<noteq> ''print''"
    and "excludeOverlaps this change"
  shows "\<exists>out. run this k [Notify change] = [out] \<and>
               mqAlias out = bp_alias B \<and> mediaQuery out = bp_mediaQuery B"
proof -
  have found: "findByQuery (breakpoints this) (mediaQuery change) = Some B"
    using assms(1,2,4) by (simp add: findByQuery_registered)
  have same: "eventFor this k change = change"
    using assms(4,5) by (simp add: eventFor_query)
  have "mqAlias (snd (injectAlias this change)) = bp_alias B"
    and "mediaQuery (snd (injectAlias this change)) = bp_mediaQuery B"
    using found assms(4,5) by (simp_all add: injectAlias_def mergeAlias_def Let_def)
  moreover have "run this k [Notify change] = [snd (injectAlias this change)]"
    unfolding run_Notify1 using assms(3,6) same by simp
  ultimately show ?thesis by simp
qed

theorem C3_witness:
  "bp_sm \<in> set (items stdRegistry)
   \<and> distinct (map bp_mediaQuery (items stdRegistry))
   \<and> run (newMediaObserver stdRegistry idleWatcher (printAs None)) (Suc 0)
       [Notify (rawChange True ''(min-width:600px)'')]
     = [\<lparr>matches = True, mediaQuery = ''(min-width:600px)'', mqAlias = ''sm'', priority = None\<rparr>]"
  using C3_alias_injection [of bp_sm "newMediaObserver stdRegistry idleWatcher (printAs None)"
      "rawChange True ''(min-width:600px)''" "Suc 0"]
  by (simp add: fixture_defs pipe_defs)

text \<open>
  For a registered breakpoint whose query is \<^verbatim>\<open>print\<close> the claim fails: \<open>paper\<close> is
  registered in \<open>printRegistry\<close> with unique queries, the event for its query passes the
  overlap filter (the flag is cleared), and it is emitted with the alias and the query
  of \<open>sm\<close>, the configured \<^verbatim>\<open>printWithBreakpoint\<close>.
\<close>

theorem C3_counterexample:
  "bp_print \<in> set (items printRegistry)
   \<and> distinct (map bp_mediaQuery (items printRegistry))
   \<and> mediaQuery (rawChange True ''print'') = bp_mediaQuery bp_print
   \<and> excludeOverlaps
       ((newMediaObserver printRegistry idleWatcher (printAs (Some ''sm'')))\<lparr>filterOverlaps := False\<rparr>)
       (rawChange True ''print'')
   \<and> run ((newMediaObserver printRegistry idleWatcher (printAs (Some ''sm'')))\<lparr>filterOverlaps := False\<rparr>) 0
       [Notify (rawChange True ''print'')]
     = [\<lparr>matches = True, mediaQuery = ''(min-width:600px)'', mqAlias = ''sm'', priority = None\<rparr>]
   \<and> bp_alias bp_print = ''paper''
   \<and> bp_mediaQuery bp_print = ''print''"
  by (simp add: fixture_defs pipe_defs)

text \<open>
  C6 (amended). An activation event whose query string \<open>findByQuery\<close> does not find
  passes the overlap filter whatever \<open>filterOverlaps\<close> is. Unless the query is the
  literal \<^verbatim>\<open>print\<close> and the \<^verbatim>\<open>printWithBreakpoint\<close> alias resolves to a breakpoint, every
  subscriber receives the event unchanged: with its own query string and with the alias
  it arrived with, which is empty for an event of the watcher. In the excepted case the
  first subscriber receives it with the alias, query string and priority of that
  breakpoint.
\<close>

theorem C6_unregistered_passthrough:
  assumes "matches change"
    and "findByQuery (breakpoints this) (mediaQuery change) = None"
  shows "excludeOverlaps (this\<lparr>filterOverlaps := flag\<rparr>) change \<and>
         ((mediaQuery change = ''print'' \<longrightarrow> printBreakPoint this = None) \<longrightarrow>
            run (this\<lparr>filterOverlaps := flag\<rparr>) k [Notify change] = [change]) \<and>
         (mediaQuery change = ''print'' \<and> printBreakPoint this = Some bp \<longrightarrow>
            run (this\<lparr>filterOverlaps := flag\<rparr>) 0 [Notify change] =
              [change\<lparr>mediaQuery := bp_mediaQuery bp, mqAlias := bp_alias bp,
                      priority := bp_priority bp\<rparr>]) \<and>
         mqAlias (rawChange m query) = []"
proof -
  let ?obs = "this\<lparr>filterOverlaps := flag\<rparr>"
  have pass: "excludeOverlaps ?obs change"
    using assms(2) by (simp add: excludeOverlaps_flag)
  have pbp: "printBreakPoint ?obs = printBreakPoint this"
    by (simp add: printBreakPoint_def split: option.split)
  have plain: "run ?obs k [Notify change] = [change]"
    if "mediaQuery change = ''print'' \<longrightarrow> printBreakPoint this = None"
  proof -
    have same: "eventFor ?obs k change = change"
      using that pbp by (intro eventFor_unchanged) simp
    have "snd (injectAlias this change) = change"
      using that assms(2) by (auto simp: injectAlias_def mergeAlias_def Let_def)
    then show ?thesis
      unfolding run_Notify1 using same pass assms(1) by (simp add: injectAlias_flag)
  qed
  have subst: "run ?obs 0 [Notify change] =
                 [change\<lparr>mediaQuery := bp_mediaQuery bp, mqAlias := bp_alias bp,
                         priority := bp_priority bp\<rparr>]"
    if "mediaQuery change = ''print''" and "printBreakPoint this = Some bp"
  proof -
    have "snd (injectAlias this change) =
            mergeAlias (change\<lparr>mediaQuery := bp_mediaQuery bp\<rparr>) (Some bp)"
      using that by (rule snd_injectAlias_print_Some)
    then show ?thesis
      unfolding run_Notify1 using pass assms(1) by (simp add: injectAlias_flag mergeAlias_def)
  qed
  have raw: "mqAlias (rawChange m query) = []"
    by (simp add: rawChange_def)
  show ?thesis
    using pass plain subst raw by blast
qed

theorem C6_witness:
  "findByQuery stdRegistry ''(orientation:landscape)'' = None
   \<and> run (newMediaObserver stdRegistry idleWatcher (printAs (Some ''sm''))) (Suc 0)
       [Notify (rawChange True ''(orientation:landscape)'')]
     = [\<lparr>matches = True, mediaQuery = ''(orientation:landscape)'', mqAlias = [], priority = None\<rparr>]
   \<and> run ((newMediaObserver stdRegistry idleWatcher (printAs (Some ''sm'')))\<lparr>filterOverlaps := False\<rparr>)
         (Suc 0) [Notify (rawChange True ''(orientation:landscape)'')]
     = [\<lparr>matches = True, mediaQuery = ''(orientation:landscape)'', mqAlias = [], priority = None\<rparr>]
   \<and> printBreakPoint (newMediaObserver stdRegistry idleWatcher (printAs None)) = None
   \<and> run (newMediaObserver stdRegistry idleWatcher (printAs None)) (Suc 0)
       [Notify (rawChange True ''print'')]
     = [\<lparr>matches = True, mediaQuery = ''print'', mqAlias = [], priority = None\<rparr>]
   \<and> printBreakPoint (newMediaObserver stdRegistry idleWatcher (printAs (Some ''gt-sm''))) = Some bp_gt_sm
   \<and> run (newMediaObserver stdRegistry idleWatcher (printAs (Some ''gt-sm''))) 0
       [Notify (rawChange True ''print'')]
     = [\<lparr>matches = True, mediaQuery = ''(min-width:960px)'', mqAlias = ''gt-sm'', priority = None\<rparr>]"
  using C6_unregistered_passthrough [of "rawChange True ''(orientation:landscape)''"
      "newMediaObserver stdRegistry idleWatcher (printAs (Some ''sm''))" True "Suc 0" bp_sm]
    C6_unregistered_passthrough [of "rawChange True ''(orientation:landscape)''"
      "newMediaObserver stdRegistry idleWatcher (printAs (Some ''sm''))" False "Suc 0" bp_sm]
    C6_unregistered_passthrough [of "rawChange True ''print''"
      "newMediaObserver stdRegistry idleWatcher (printAs None)" True "Suc 0" bp_sm]
    C6_unregistered_passthrough [of "rawChange True ''print''"
      "newMediaObserver stdRegistry idleWatcher (printAs (Some ''gt-sm''))" True 0 bp_gt_sm]
  by (simp add: fixture_defs pipe_defs)

text \<open>
  Without the exception the claim fails: \<^verbatim>\<open>print\<close> is not a query of \<open>stdRegistry\<close>, yet
  with \<^verbatim>\<open>printWithBreakpoint = 'sm'\<close> its activation is emitted with the alias and the
  query of \<open>sm\<close>.
\<close>

theorem C6_counterexample:
  "matches (rawChange True ''print'')
   \<and> findByQuery (breakpoints (newMediaObserver stdRegistry idleWatcher (printAs (Some ''sm''))))
       (mediaQuery (rawChange True ''print'')) = None
   \<and> run (newMediaObserver stdRegistry idleWatcher (printAs (Some ''sm''))) 0
       [Notify (rawChange True ''print'')]
     = [\<lparr>matches = True, mediaQuery = ''(min-width:600px)'', mqAlias = ''sm'', priority = None\<rparr>]"
  by (simp add: fixture_defs pipe_defs)

section \<open>Print substitution\<close>

text \<open>
  C4 (amended). When \<^verbatim>\<open>printWithBreakpoint\<close> is an alias \<open>a\<close> that \<open>findByAlias\<close> resolves
  to a breakpoint \<open>bp\<close>, an activation event for the literal query \<^verbatim>\<open>print\<close> whose raw
  string passes the overlap filter is emitted to the first subscriber as exactly one
  event, with the query string of \<open>bp\<close> and the alias \<open>a\<close>: the breakpoint is the one
  found by the configured alias, whatever a lookup of the string \<^verbatim>\<open>print\<close> gives. Every
  later subscriber receives the same event when the query strings of the registry are
  unique and \<open>bp\<close> is not overlapping or \<open>filterOverlaps\<close> is false.
\<close>

theorem C4_print_substitution:
  assumes "printWithBreakpoint (layoutConfig this) = Some a"
    and "findByAlias (breakpoints this) a = Some bp"
    and "matches change"
    and "mediaQuery change = ''print''"
    and "excludeOverlaps this change"
  shows "\<exists>out. run this 0 [Notify change] = [out] \<and>
               mediaQuery out = bp_mediaQuery bp \<and> mqAlias out = a \<and>
               out = mergeAlias (change\<lparr>mediaQuery := bp_mediaQuery bp\<rparr>)
                       (findByAlias (breakpoints this) a) \<and>
               (distinct (map bp_mediaQuery (items (breakpoints this))) \<and>
                \<not> (filterOverlaps this \<and> overlapping bp) \<longrightarrow>
                  run this k [Notify change] = [out])"
proof -
  let ?c1 = "change\<lparr>mediaQuery := bp_mediaQuery bp\<rparr>"
  let ?out = "mergeAlias ?c1 (Some bp)"
  have bp: "printBreakPoint this = Some bp"
    using assms(1,2) by (simp add: printBreakPoint_def)
  have a: "bp_alias bp = a" and reg: "bp \<in> set (items (breakpoints this))"
    using assms(2) by (simp_all add: findByAlias_SomeD)
  have out0: "snd (injectAlias this change) = ?out"
    using bp assms(4) by (rule snd_injectAlias_print_Some [rotated])
  have first: "run this 0 [Notify change] = [?out]"
    unfolding run_Notify1 using assms(3,5) out0 by simp
  have later: "run this k [Notify change] = [?out]"
    if uniq: "distinct (map bp_mediaQuery (items (breakpoints this)))"
      and ok: "\<not> (filterOverlaps this \<and> overlapping bp)"
  proof (cases k)
    case 0
    with first show ?thesis by simp
  next
    case (Suc j)
    have "eventFor this k change = fst (media this change)"
      unfolding Suc by (rule eventFor_Suc)
    then have seen: "eventFor this k change = ?c1"
      using assms(3,4,5) bp by (simp add: media_cases fst_injectAlias_print_Some)
    show ?thesis
    proof (cases "bp_mediaQuery bp = ''print''")
      case True
      then have "?c1 = change" using assms(4) by simp
      with seen have "eventFor this k change = change" by simp
      then show ?thesis
        unfolding run_Notify1 using assms(3,5) out0 by simp
    next
      case False
      have found: "findByQuery (breakpoints this) (mediaQuery ?c1) = Some bp"
        using uniq reg by (simp add: findByQuery_registered)
      have pass: "excludeOverlaps this ?c1"
        using found ok by (simp add: excludeOverlaps_def)
      have "snd (injectAlias this ?c1) = ?out"
        using False found by (simp add: snd_injectAlias_query)
      then show ?thesis
        unfolding run_Notify1 using seen pass assms(3) by simp
    qed
  qed
  show ?thesis
    using first later a assms(2) by (auto simp: mergeAlias_def)
qed

theorem C4_witness:
  "printWithBreakpoint (layoutConfig (newMediaObserver stdRegistry idleWatcher (printAs (Some ''sm''))))
     = Some ''sm''
   \<and> findByAlias stdRegistry ''sm'' = Some bp_sm
   \<and> excludeOverlaps (newMediaObserver stdRegistry idleWatcher (printAs (Some ''sm'')))
       (rawChange True ''print'')
   \<and> run (newMediaObserver stdRegistry idleWatcher (printAs (Some ''sm''))) 0
       [Notify (rawChange True ''print'')]
     = [\<lparr>matches = True, mediaQuery = ''(min-width:600px)'', mqAlias = ''sm'', priority = None\<rparr>]
   \<and> distinct (map bp_mediaQuery (items stdRegistry))
   \<and> \<not> overlapping bp_sm
   \<and> run (newMediaObserver stdRegistry idleWatcher (printAs (Some ''sm''))) (Suc 0)
       [Notify (rawChange True ''print'')]
     = [\<lparr>matches = True, mediaQuery = ''(min-width:600px)'', mqAlias = ''sm'', priority = None\<rparr>]"
  using C4_print_substitution
    [of "newMediaObserver stdRegistry idleWatcher (printAs (Some ''sm''))"
      "''sm''" bp_sm "rawChange True ''print''" "Suc 0"]
  by (simp add: fixture_defs pipe_defs)

text \<open>
  The event is not emitted in every case. The overlap filter runs first, on the query
  the event object holds at that moment. In \<open>printRegistry\<close>, where \<^verbatim>\<open>print\<close> is the
  query of an overlapping breakpoint, a new observer (flag set) with
  \<^verbatim>\<open>printWithBreakpoint = 'sm'\<close> drops the activation of \<^verbatim>\<open>print\<close> for the first
  subscriber. In \<open>stdRegistry\<close> with \<^verbatim>\<open>printWithBreakpoint = 'gt-sm'\<close> the second
  subscriber receives nothing: its chain finds the query of \<open>gt-sm\<close> on the event object.
\<close>

theorem C4_counterexample:
  "printWithBreakpoint (layoutConfig (newMediaObserver printRegistry idleWatcher (printAs (Some ''sm''))))
     = Some ''sm''
   \<and> findByAlias printRegistry ''sm'' = Some bp_sm
   \<and> matches (rawChange True ''print'')
   \<and> run (newMediaObserver printRegistry idleWatcher (printAs (Some ''sm''))) 0
       [Notify (rawChange True ''print'')] = []
   \<and> printWithBreakpoint (layoutConfig (newMediaObserver stdRegistry idleWatcher (printAs (Some ''gt-sm''))))
     = Some ''gt-sm''
   \<and> findByAlias stdRegistry ''gt-sm'' = Some bp_gt_sm
   \<and> findByQuery stdRegistry ''print'' = None
   \<and> run (newMediaObserver stdRegistry idleWatcher (printAs (Some ''gt-sm''))) (Suc 0)
       [Notify (rawChange True ''print'')] = []"
  by (simp add: fixture_defs pipe_defs)

text \<open>
  C7 (amended). When \<^verbatim>\<open>printWithBreakpoint\<close> is an alias that \<open>findByAlias\<close> does not
  find, an activation event for the literal query \<^verbatim>\<open>print\<close> that passes the overlap
  filter is emitted unchanged to every subscriber: its query is still \<^verbatim>\<open>print\<close>, no
  alias is written, and the result is an event, not an error.
\<close>

theorem C7_print_alias_missing:
  assumes "printWithBreakpoint (layoutConfig this) = Some a"
    and "findByAlias (breakpoints this) a = None"
    and "matches change"
    and "mediaQuery change = ''print''"
    and "excludeOverlaps this change"
  shows "run this k [Notify change] = [change]"
proof -
  have none: "printBreakPoint this = None"
    using assms(1,2) by (simp add: printBreakPoint_def)
  then have same: "eventFor this k change = change"
    by (rule eventFor_print_None)
  have "snd (injectAlias this change) = change"
    using none assms(4) by (simp add: injectAlias_def mergeAlias_def Let_def)
  then show ?thesis
    unfolding run_Notify1 using assms(3,5) same by simp
qed

theorem C7_witness:
  "printWithBreakpoint (layoutConfig (newMediaObserver stdRegistry idleWatcher (printAs (Some ''xl''))))
     = Some ''xl''
   \<and> findByAlias stdRegistry ''xl'' = None
   \<and> excludeOverlaps (newMediaObserver stdRegistry idleWatcher (printAs (Some ''xl'')))
       (rawChange True ''print'')
   \<and> run (newMediaObserver stdRegistry idleWatcher (printAs (Some ''xl''))) (Suc 0)
       [Notify (rawChange True ''print'')]
     = [\<lparr>matches = True, mediaQuery = ''print'', mqAlias = [], priority = None\<rparr>]"
  using C7_print_alias_missing
    [of "newMediaObserver stdRegistry idleWatcher (printAs (Some ''xl''))"
      "''xl''" "rawChange True ''print''" "Suc 0"]
  by (simp add: fixture_defs pipe_defs)

text \<open>
  Here too the overlap filter comes first: in \<open>printRegistry\<close> a new observer whose
  \<^verbatim>\<open>printWithBreakpoint\<close> names the unregistered alias \<open>xl\<close> emits nothing for the
  activation of \<^verbatim>\<open>print\<close>.
\<close>

theorem C7_counterexample:
  "printWithBreakpoint (layoutConfig (newMediaObserver printRegistry idleWatcher (printAs (Some ''xl''))))
     = Some ''xl''
   \<and> findByAlias printRegistry ''xl'' = None
   \<and> matches (rawChange True ''print'')
   \<and> run (newMediaObserver printRegistry idleWatcher (printAs (Some ''xl''))) 0
       [Notify (rawChange True ''print'')] = []"
  by (simp add: fixture_defs pipe_defs)

section \<open>The watch-list, order of emission and \<open>isActive\<close>\<close>

text \<open>
  C8. The constructor hands the watcher one list: the query strings of all registry
  items in registry order, followed by the literal \<^verbatim>\<open>print\<close> exactly when
  \<^verbatim>\<open>printWithBreakpoint\<close> is set (to a non-empty string, the test being
  \<^verbatim>\<open>!!printWithBreakpoint\<close>). Nothing that happens to the observer later changes what the
  watcher was given.
\<close>

theorem C8_watch_list:
  "mediaWatcher (newMediaObserver locator mw cfg) =
     observe mw (map bp_mediaQuery (items locator) @
                 (if truthy (printWithBreakpoint cfg) then [''print''] else [])) \<and>
   truthy (printWithBreakpoint cfg) = (\<exists>a. printWithBreakpoint cfg = Some a \<and> a \<noteq> []) \<and>
   mediaWatcher (exec (newMediaObserver locator mw cfg) acts) =
     mediaWatcher (newMediaObserver locator mw cfg)"
  by (simp add: newMediaObserver_def watchActivations_def buildObservable_def
      addPrintListener_def truthy_def Let_def exec_frame split: option.split)

theorem C8_witness:
  "observed (mediaWatcher (exec (newMediaObserver stdRegistry idleWatcher (printAs (Some ''sm'')))
      [Notify (rawChange True ''print''), SetFilterOverlaps False]))
     = [''(min-width:600px)'', ''(min-width:960px)'', ''print'']
   \<and> observed (mediaWatcher (newMediaObserver stdRegistry idleWatcher (printAs None)))
     = [''(min-width:600px)'', ''(min-width:960px)'']"
  using C8_watch_list [of stdRegistry idleWatcher "printAs (Some ''sm'')"
      "[Notify (rawChange True ''print''), SetFilterOverlaps False]"]
    C8_watch_list [of stdRegistry idleWatcher "printAs None" "[]"]
  by (simp add: fixture_defs)

text \<open>
  C9. For every subscriber the emissions are the input, filtered and annotated, in the
  order of arrival. For a sequence of raw events the emitted list is the map of the
  annotation over the sublist of events that pass both filters of the subscriber's
  chain (for the first subscriber, on the raw events themselves); a run splits at any
  point into the emissions before and the emissions after it; one event gives at most
  one emission, and a run never emits more events than it received.
\<close>

theorem C9_order_preserved:
  "run this 0 (map Notify changes) =
     map (\<lambda>c. snd (injectAlias this c)) (filter (\<lambda>c. matches c \<and> excludeOverlaps this c) changes) \<and>
   run this k (map Notify changes) =
     map (\<lambda>c. snd (injectAlias this (eventFor this k c)))
       (filter (\<lambda>c. matches c \<and> excludeOverlaps this (eventFor this k c)) changes) \<and>
   run this k (acts1 @ acts2) = run this k acts1 @ run (exec this acts1) k acts2 \<and>
   length (run this k [a]) \<le> 1 \<and>
   length (run this k acts) \<le> length acts"
  using run_Notify_map [of this 0 changes] run_Notify_map [of this k changes]
    run_append [of this k acts1 acts2] length_run [of this k "[a]"] length_run [of this k acts]
  by simp

theorem C9_witness:
  "run (newMediaObserver stdRegistry idleWatcher (printAs (Some ''sm''))) (Suc 0)
     [Notify (rawChange True ''print''), Notify (rawChange True ''(min-width:960px)''),
      Notify (rawChange False ''(min-width:600px)''), Notify (rawChange True ''(hover)''),
      Notify (rawChange True ''(min-width:600px)'')]
   = [\<lparr>matches = True, mediaQuery = ''(min-width:600px)'', mqAlias = ''sm'', priority = None\<rparr>,
      \<lparr>matches = True, mediaQuery = ''(hover)'', mqAlias = [], priority = None\<rparr>,
      \<lparr>matches = True, mediaQuery = ''(min-width:600px)'', mqAlias = ''sm'', priority = None\<rparr>]"
  using C9_order_preserved [of "newMediaObserver stdRegistry idleWatcher (printAs (Some ''sm''))"
      "[rawChange True ''print'', rawChange True ''(min-width:960px)'',
        rawChange False ''(min-width:600px)'', rawChange True ''(hover)'',
        rawChange True ''(min-width:600px)'']" "Suc 0"]
  by (simp add: fixture_defs pipe_defs)

text \<open>
  C5. \<open>isActive x\<close> is the watcher's answer for the query \<open>x\<close> resolves to: the query of
  the breakpoint with alias \<open>x\<close> if there is one; otherwise the query of the breakpoint
  with query \<open>x\<close>; otherwise \<open>x\<close> itself. It is a truth value in each case.
\<close>

theorem C5_isActive:
  "(findByAlias (breakpoints this) x = Some b \<longrightarrow>
      isActive this x = mm_isActive (mediaWatcher this) (bp_mediaQuery b)) \<and>
   (findByAlias (breakpoints this) x = None \<and> findByQuery (breakpoints this) x = Some b \<longrightarrow>
      isActive this x = mm_isActive (mediaWatcher this) (bp_mediaQuery b)) \<and>
   (findByAlias (breakpoints this) x = None \<and> findByQuery (breakpoints this) x = None \<longrightarrow>
      isActive this x = mm_isActive (mediaWatcher this) x)"
  by (simp add: isActive_def toMediaQuery_def)

text \<open>
  In \<open>clashRegistry\<close> the string \<^verbatim>\<open>sm\<close> is both an alias and, earlier in the list, a query:
  the alias wins. The unknown alias \<^verbatim>\<open>xs\<close> is asked of the watcher as it is.
\<close>

theorem C5_witness:
  "findByAlias clashRegistry ''sm'' = Some bp_sm
   \<and> findByQuery clashRegistry ''sm'' = Some bp_wide
   \<and> isActive (newMediaObserver clashRegistry idleWatcher (printAs None)) ''sm''
   \<and> findByAlias clashRegistry ''(min-width:600px)'' = None
   \<and> isActive (newMediaObserver clashRegistry idleWatcher (printAs None)) ''(min-width:600px)''
   \<and> findByAlias clashRegistry ''xs'' = None
   \<and> findByQuery clashRegistry ''xs'' = None
   \<and> \<not> isActive (newMediaObserver clashRegistry idleWatcher (printAs None)) ''xs''"
  using C5_isActive [of "newMediaObserver clashRegistry idleWatcher (printAs None)" "''sm''" bp_sm]
    C5_isActive [of "newMediaObserver clashRegistry idleWatcher (printAs None)"
      "''(min-width:600px)''" bp_sm]
    C5_isActive [of "newMediaObserver clashRegistry idleWatcher (printAs None)" "''xs''" bp_sm]
  by (simp add: fixture_defs pipe_defs)

end
